theory Spec2Isabelle
  imports Main "HOL-Library.AList"
begin

section \<open>Data model\<close>

text \<open>
  Values that handlers keep in the per-user scratch mapping (\<open>context.user_data\<close>) are
  JSON values. The engine never looks inside them, except for the truth value of the two
  override flags that \<open>index.process_update\<close> pops.
\<close>

datatype jval =
    JNull
  | JBool bool
  | JInt int
  | JStr string
  | JArr "jval list"
  | JObj "(string \<times> jval) list"

text \<open>Python truthiness, as used by \<open>if unknown_update or error_update\<close> and \<open>if error\<close>.\<close>

fun truthy :: "jval \<Rightarrow> bool" where
  "truthy JNull = False"
| "truthy (JBool b) = b"
| "truthy (JInt i) = (i \<noteq> 0)"
| "truthy (JStr s) = (s \<noteq> [])"
| "truthy (JArr xs) = (xs \<noteq> [])"
| "truthy (JObj kvs) = (kvs \<noteq> [])"

type_synonym scratch = "string \<rightharpoonup> jval"

text \<open>
  A conversation state token: the handlers of this program use the names of
  \<open>StatesHolder\<close> (strings); \<open>ConversationHandler.END\<close> is the integer \<open>-1\<close>.
  Python's \<open>None\<close> is not a token: where the code compares with \<open>None\<close> the model
  uses \<open>state option\<close>.
\<close>

datatype state = SInt int | SStr string

definition END :: state where
  "END = SInt (- 1)"

text \<open>
  The stored document, as \<open>_dump_into_json\<close> builds it and \<open>update_data\<close> reads it:
  a JSON object with the optional keys \<open>user_data\<close> and \<open>conversations\<close>. A field
  that is \<open>None\<close> is a key that is absent (or \<open>null\<close>: \<open>data.get(k) is not None\<close>
  does not tell the two apart). The conversations section is a dict that the code iterates,
  so it is an association list in insertion order. The JSON text that \<open>json.dumps\<close>
  writes and \<open>json.loads\<close> reads is identified with the value it encodes.
\<close>

record document =
  doc_user_data :: "scratch option"
  doc_conversations :: "(string \<times> state) list option"

definition empty_doc :: document where
  "empty_doc = \<lparr>doc_user_data = None, doc_conversations = None\<rparr>"


section \<open>The in-memory persistence (telegram.ext.DictPersistence)\<close>

text \<open>
  \<open>YDBPersistence\<close> extends the library class \<open>DictPersistence\<close> and uses two of its
  attributes: \<open>user_data\<close> (\<open>None\<close> or a dict from user id to scratch mapping) and
  \<open>conversations\<close> (\<open>None\<close> or a dict from conversation name to a dict from key tuple
  to state). The key of a conversation is the tuple \<open>(user_id,)\<close>, a list of one integer
  here. A state slot can hold Python's \<open>None\<close> (an ended conversation).
\<close>

type_synonym conv_dict = "int list \<rightharpoonup> state option"

record dict_persistence =
  p_user_data :: "(int \<rightharpoonup> scratch) option"
  p_conversations :: "(string \<times> conv_dict) list option"

text \<open>A persistence object right after construction: both attributes are \<open>None\<close>.\<close>

definition fresh_persistence :: dict_persistence where
  "fresh_persistence = \<lparr>p_user_data = None, p_conversations = None\<rparr>"

text \<open>\<open>d.get(k)\<close> on a dict whose values may themselves be \<open>None\<close>.\<close>

definition py_get :: "('k \<rightharpoonup> 'v option) \<Rightarrow> 'k \<Rightarrow> 'v option" where
  "py_get d k = (case d k of None \<Rightarrow> None | Some v \<Rightarrow> v)"

text \<open>
  Library method \<open>DictPersistence.update_user_data(user_id, data)\<close>: creates the dict when
  it is \<open>None\<close>, returns early when the stored entry equals \<open>data\<close>, stores \<open>data\<close>
  otherwise.
\<close>

definition update_user_data :: "dict_persistence \<Rightarrow> int \<Rightarrow> scratch \<Rightarrow> dict_persistence" where
  "update_user_data p user_id data =
     (let ud = (case p_user_data p of None \<Rightarrow> Map.empty | Some m \<Rightarrow> m)
      in if ud user_id = Some data then p\<lparr>p_user_data := Some ud\<rparr>
         else p\<lparr>p_user_data := Some (ud(user_id \<mapsto> data))\<rparr>)"

text \<open>
  Library method \<open>DictPersistence.update_conversation(name, key, new_state)\<close>:
  \<^verbatim>\<open>
  if not self._conversations: self._conversations = {}
  if self._conversations.setdefault(name, {}).get(key) == new_state: return
  self._conversations[name][key] = new_state
  \<close>
\<close>

definition setdefault :: "'k \<Rightarrow> 'v \<Rightarrow> ('k \<times> 'v) list \<Rightarrow> ('k \<times> 'v) list" where
  "setdefault k v d = (case map_of d k of None \<Rightarrow> d @ [(k, v)] | Some _ \<Rightarrow> d)"

definition conv_lookup :: "(string \<times> conv_dict) list \<Rightarrow> string \<Rightarrow> conv_dict" where
  "conv_lookup convs name = (case map_of convs name of None \<Rightarrow> Map.empty | Some cd \<Rightarrow> cd)"

definition update_conversation ::
  "dict_persistence \<Rightarrow> string \<Rightarrow> int list \<Rightarrow> state option \<Rightarrow> dict_persistence" where
  "update_conversation p name key new_state =
     (let convs0 = (case p_conversations p of None \<Rightarrow> [] | Some c \<Rightarrow> c);
          convs = setdefault name Map.empty convs0;
          cd = conv_lookup convs name
      in if py_get cd key = new_state then p\<lparr>p_conversations := Some convs\<rparr>
         else p\<lparr>p_conversations := Some (AList.update name (cd(key \<mapsto> new_state)) convs)\<rparr>)"

section \<open>YDBPersistence: loading and dumping a document (persistence.py)\<close>

text \<open>
  \<open>YDBPersistence.update_data(user_id, data)\<close>: the scratch section goes to
  \<open>update_user_data\<close> when it is not \<open>None\<close>; every pair of the conversations section
  goes to \<open>update_conversation\<close> under the key \<open>(user_id,)\<close>.
\<close>

definition update_data :: "dict_persistence \<Rightarrow> int \<Rightarrow> document \<Rightarrow> dict_persistence" where
  "update_data p user_id data =
     (let p1 = (case doc_user_data data of
                  None \<Rightarrow> p
                | Some ud \<Rightarrow> update_user_data p user_id ud)
      in case doc_conversations data of
           None \<Rightarrow> p1
         | Some cs \<Rightarrow>
             fold (\<lambda>(conv_name, st) q. update_conversation q conv_name [user_id] (Some st)) cs p1)"

text \<open>
  The loop of \<open>_dump_into_json\<close> over \<open>self.conversations.items()\<close>: the state of every
  conversation under the key \<open>(user_id,)\<close>, kept when it is not \<open>None\<close>.
\<close>

definition conversations_data :: "(string \<times> conv_dict) list \<Rightarrow> int \<Rightarrow> (string \<times> state) list" where
  "conversations_data convs user_id =
     fold (\<lambda>(conv_name, conv_data) acc.
             case py_get conv_data [user_id] of
               None \<Rightarrow> acc
             | Some st \<Rightarrow> AList.update conv_name st acc)
          convs []"

text \<open>
  \<open>YDBPersistence._dump_into_json(user_id)\<close>: \<open>user_data\<close> is emitted when the
  persistence has an entry for the user (\<open>is not None\<close>), \<open>conversations\<close> when the
  filtered dict is non-empty (\<open>if conversations_data\<close>).
\<close>

definition dump_into_json :: "dict_persistence \<Rightarrow> int \<Rightarrow> document" where
  "dump_into_json p user_id =
     \<lparr>doc_user_data =
        (case p_user_data p of None \<Rightarrow> None | Some ud \<Rightarrow> ud user_id),
      doc_conversations =
        (case p_conversations p of
           None \<Rightarrow> None
         | Some convs \<Rightarrow>
             (let cd = conversations_data convs user_id
              in if cd \<noteq> [] then Some cd else None))\<rparr>"

section \<open>The users table and the statements sent to it (database.py)\<close>

text \<open>The table and column names that \<open>YDBClient.__init__\<close> fixes.\<close>

definition users_table :: string where "users_table = ''users''"
definition user_id_column :: string where "user_id_column = ''user_id''"
definition first_name_column :: string where "first_name_column = ''first_name''"
definition last_name_column :: string where "last_name_column = ''last_name''"
definition username_column :: string where "username_column = ''username''"
definition usage_column :: string where "usage_column = ''usage''"
definition data_column :: string where "data_column = ''persistence_data''"
definition meetings_ts_column :: string where "meetings_ts_column = ''meetings_ts''"

text \<open>
  A value bound to a query parameter or held in a cell: \<open>Uint64\<close>, \<open>Utf8\<close> or \<open>Json\<close>
  (the dumped document). \<open>NULL\<close> is the absence of a value.
\<close>

datatype cell = VInt int | VUtf8 string | VJson document

type_synonym params = "(string \<times> cell) list"
type_synonym row = "string \<rightharpoonup> cell"

definition nl :: string where "nl = [CHR 0x0A]"
definition sp :: "nat \<Rightarrow> string" where "sp n = replicate n (CHR '' '')"

subsection \<open>A model of the store for the statement forms of the program\<close>

text \<open>
  The store is Yandex Database, reached through the \<open>ydb\<close> package; neither is part of
  the repository. The model reads a statement the way YQL does for the three forms the
  program sends to the users table: the text is split into words at blanks, line breaks,
  commas, parentheses and semicolons, the \<open>DECLARE $p AS T\<close> prefix is skipped, and then
  \<^item> \<open>SELECT c FROM t WHERE k = $p\<close> returns the cell \<open>c\<close> of every row whose \<open>k\<close> is the
    value bound to \<open>$p\<close>;
  \<^item> \<open>UPDATE t SET c = e, ... WHERE k = $p\<close> assigns in every such row (\<open>e\<close> is \<open>NULL\<close>
    or a parameter) and touches no other row and no other column;
  \<^item> \<open>UPSERT INTO t (c, ...) VALUES ($p, ...)\<close> assigns the listed columns in the row
    that has the same primary key (the identity column), keeping its other columns, or
    adds a row with the listed columns when there is none.
\<close>

definition is_sep :: "char \<Rightarrow> bool" where
  "is_sep c = (c = CHR '' '' \<or> c = CHR 0x0A \<or> c = CHR '','' \<or> c = CHR ''(''
               \<or> c = CHR '')'' \<or> c = CHR '';'')"

fun tokens_from :: "string \<Rightarrow> string \<Rightarrow> string list" where
  "tokens_from cur [] = (if cur = [] then [] else [rev cur])"
| "tokens_from cur (c # cs) =
     (if is_sep c
      then (if cur = [] then tokens_from [] cs else rev cur # tokens_from [] cs)
      else tokens_from (c # cur) cs)"

definition tokens :: "string \<Rightarrow> string list" where
  "tokens s = tokens_from [] s"

datatype expr = ENull | EParam string

datatype stmt =
    Select string string string string
  | Update string "(string \<times> expr) list" string string
  | Upsert string "string list" "string list"

fun skip_declarations :: "string list \<Rightarrow> string list" where
  "skip_declarations (d # p # a # t # rest) =
     (if d = ''DECLARE'' \<and> a = ''AS'' then skip_declarations rest else d # p # a # t # rest)"
| "skip_declarations ts = ts"

definition parse_expr :: "string \<Rightarrow> expr" where
  "parse_expr v = (if v = ''NULL'' then ENull else EParam v)"

fun parse_set :: "string list \<Rightarrow> ((string \<times> expr) list \<times> string list) option" where
  "parse_set [] = None"
| "parse_set [c] = (if c = ''WHERE'' then Some ([], []) else None)"
| "parse_set [c, e] = (if c = ''WHERE'' then Some ([], [e]) else None)"
| "parse_set (c # e # v # rest) =
     (if c = ''WHERE'' then Some ([], e # v # rest)
      else if e = ''='' then
        (case parse_set rest of
           None \<Rightarrow> None
         | Some (as, wh) \<Rightarrow> Some ((c, parse_expr v) # as, wh))
      else None)"

definition parse_statement :: "string list \<Rightarrow> stmt option" where
  "parse_statement ts =
     (case skip_declarations ts of
        [] \<Rightarrow> None
      | kw # rest \<Rightarrow>
          if kw = ''SELECT'' then
            (case rest of
               [c, f, t, w, k, e, p] \<Rightarrow>
                 if f = ''FROM'' \<and> w = ''WHERE'' \<and> e = ''='' then Some (Select c t k p) else None
             | _ \<Rightarrow> None)
          else if kw = ''UPDATE'' then
            (case rest of
               t # s # rest' \<Rightarrow>
                 if s = ''SET'' then
                   (case parse_set rest' of
                      Some (as, [k, e, p]) \<Rightarrow>
                        if e = ''='' \<and> as \<noteq> [] then Some (Update t as k p) else None
                    | _ \<Rightarrow> None)
                 else None
             | _ \<Rightarrow> None)
          else if kw = ''UPSERT'' then
            (case rest of
               i # t # rest' \<Rightarrow>
                 (let cols = takeWhile (\<lambda>x. x \<noteq> ''VALUES'') rest';
                      vals = drop 1 (dropWhile (\<lambda>x. x \<noteq> ''VALUES'') rest')
                  in if i = ''INTO'' \<and> cols \<noteq> [] \<and> length cols = length vals
                     then Some (Upsert t cols vals) else None)
             | _ \<Rightarrow> None)
          else None)"

definition eval_expr :: "params \<Rightarrow> expr \<Rightarrow> cell option" where
  "eval_expr ps e = (case e of ENull \<Rightarrow> None | EParam p \<Rightarrow> map_of ps p)"

definition assign :: "params \<Rightarrow> (string \<times> expr) list \<Rightarrow> row \<Rightarrow> row" where
  "assign ps as r = fold (\<lambda>(c, e) r'. r'(c := eval_expr ps e)) as r"

text \<open>
  Running a parsed statement on the rows of the users table: the new rows and the cells
  of the result set, or \<open>None\<close> when the store rejects the statement (another table, an
  unbound parameter, an upsert without the key column).
\<close>

fun run_stmt :: "stmt \<Rightarrow> params \<Rightarrow> row list \<Rightarrow> (row list \<times> cell option list) option" where
  "run_stmt (Select c t k p) ps rows =
     (case map_of ps p of
        None \<Rightarrow> None
      | Some v \<Rightarrow>
          if t = users_table
          then Some (rows, map (\<lambda>r. r c) (filter (\<lambda>r. r k = Some v) rows))
          else None)"
| "run_stmt (Update t as k p) ps rows =
     (case map_of ps p of
        None \<Rightarrow> None
      | Some v \<Rightarrow>
          if t = users_table \<and> list_all (\<lambda>(c, e). e = ENull \<or> eval_expr ps e \<noteq> None) as
          then Some (map (\<lambda>r. if r k = Some v then assign ps as r else r) rows, [])
          else None)"
| "run_stmt (Upsert t cols vals) ps rows =
     (case map_of (zip cols vals) user_id_column of
        None \<Rightarrow> None
      | Some kp \<Rightarrow>
          (case map_of ps kp of
             None \<Rightarrow> None
           | Some v \<Rightarrow>
               if t = users_table \<and> list_all (\<lambda>p. map_of ps p \<noteq> None) vals
               then (let as = zip cols (map EParam vals)
                     in if list_ex (\<lambda>r. r user_id_column = Some v) rows
                        then Some (map (\<lambda>r. if r user_id_column = Some v then assign ps as r
                                              else r) rows, [])
                        else Some (rows @ [assign ps as Map.empty], []))
               else None))"

subsection \<open>The client: \<open>YDBClient.execute_query\<close>\<close>

datatype error =
    ValueError string
  | LookupError int
  | AttributeError string
  | JSONDecodeError
  | Unavailable
  | GenericError

text \<open>
  The state of the global \<open>ydb_client\<close> and of the store behind it: the rows of the users
  table; \<open>y_issued\<close>, the calls of \<open>execute_query\<close> in order (the statements the program
  issues); \<open>y_executed\<close>, the executions of a statement in a session (one per attempt of
  the retrying executor); and \<open>y_faults\<close>, which says for the coming executions whether
  the connection fails (\<open>True\<close>), no failure once the list is used up.
\<close>

record ydb_client =
  y_rows :: "row list"
  y_issued :: "(string \<times> params) list"
  y_executed :: "(string \<times> params) list"
  y_faults :: "bool list"

text \<open>
  The inner function \<open>execute(session, query, parameters)\<close>: one execution of the
  statement in a transaction that commits.
\<close>

definition execute ::
  "string \<Rightarrow> params \<Rightarrow> ydb_client \<Rightarrow> (error + cell option list) \<times> ydb_client" where
  "execute query parameters y =
     (let (fault, faults) = (case y_faults y of [] \<Rightarrow> (False, []) | f # fs \<Rightarrow> (f, fs));
          y1 = y\<lparr>y_executed := y_executed y @ [(query, parameters)], y_faults := faults\<rparr>
      in if fault then (Inl Unavailable, y1)
         else (case parse_statement (tokens query) of
                 None \<Rightarrow> (Inl GenericError, y1)
               | Some st \<Rightarrow>
                   (case run_stmt st parameters (y_rows y) of
                      None \<Rightarrow> (Inl GenericError, y1)
                    | Some (rows, res) \<Rightarrow> (Inr res, y1\<lparr>y_rows := rows\<rparr>))))"

text \<open>
  Library function \<open>SessionPool.retry_operation_sync(callee, ...)\<close> with the default
  retry settings: the callee runs again after a retriable error, at most
  \<open>max_retries\<close> more times; any other error and the last error are raised to the caller.
\<close>

definition retriable :: "error \<Rightarrow> bool" where
  "retriable e = (e = Unavailable)"

definition max_retries :: nat where
  "max_retries = 10"

fun retry_operation_sync ::
  "nat \<Rightarrow> (ydb_client \<Rightarrow> (error + 'a) \<times> ydb_client) \<Rightarrow> ydb_client
     \<Rightarrow> (error + 'a) \<times> ydb_client" where
  "retry_operation_sync 0 callee y = callee y"
| "retry_operation_sync (Suc n) callee y =
     (case callee y of
        (Inl e, y') \<Rightarrow> if retriable e then retry_operation_sync n callee y' else (Inl e, y')
      | (Inr r, y') \<Rightarrow> (Inr r, y'))"

definition execute_query ::
  "string \<Rightarrow> params \<Rightarrow> ydb_client \<Rightarrow> (error + cell option list) \<times> ydb_client" where
  "execute_query query parameters y =
     retry_operation_sync max_retries (execute query parameters)
       (y\<lparr>y_issued := y_issued y @ [(query, parameters)]\<rparr>)"

subsection \<open>\<open>YDBPersistence.get_data\<close> and \<open>YDBPersistence.update_database\<close>\<close>

text \<open>The query text and the parameters that \<open>get_data\<close> builds.\<close>

definition get_data_request :: "int \<Rightarrow> string \<times> params" where
  "get_data_request user_id =
     (let declarations = ''DECLARE $user_id AS Uint64;'';
          query = nl @ sp 12 @ declarations @ nl
                @ sp 12 @ nl
                @ sp 12 @ ''SELECT '' @ data_column @ nl
                @ sp 12 @ ''FROM '' @ users_table @ nl
                @ sp 12 @ ''WHERE '' @ user_id_column @ '' = $user_id'' @ nl
                @ sp 8;
          parameters = [(''$user_id'', VInt user_id)]
      in (query, parameters))"

text \<open>
  \<open>get_data\<close>: no row gives the empty dict, one row gives its cell (\<open>NULL\<close> gives the
  empty dict, a JSON text is parsed), more rows raise \<open>LookupError\<close> after
  \<open>execute_query\<close> has returned.
\<close>

definition get_data :: "int \<Rightarrow> ydb_client \<Rightarrow> (error + document) \<times> ydb_client" where
  "get_data user_id y =
     (case execute_query (fst (get_data_request user_id)) (snd (get_data_request user_id)) y of
        (Inl e, y') \<Rightarrow> (Inl e, y')
      | (Inr rows, y') \<Rightarrow>
          (case (if length rows < 1 then Inr None
                 else if length rows = 1 then Inr (rows ! 0)
                 else Inl (LookupError user_id)) of
             Inl e \<Rightarrow> (Inl e, y')
           | Inr cell \<Rightarrow>
               (case cell of
                  None \<Rightarrow> (Inr empty_doc, y')
                | Some (VJson d) \<Rightarrow> (Inr d, y')
                | Some _ \<Rightarrow> (Inl JSONDecodeError, y'))))"

text \<open>The query text and the parameters that \<open>update_database\<close> builds.\<close>

definition update_database_request :: "dict_persistence \<Rightarrow> int \<Rightarrow> bool \<Rightarrow> string \<times> params" where
  "update_database_request p user_id err =
     (let declarations = ''DECLARE $user_id AS Uint64;'';
          parameters = [(''$user_id'', VInt user_id)]
      in if err then
           (nl @ sp 16 @ declarations @ nl
            @ sp 16 @ nl
            @ sp 16 @ ''UPDATE '' @ users_table @ nl
            @ sp 16 @ ''SET '' @ data_column @ '' = NULL, '' @ meetings_ts_column @ '' = NULL'' @ nl
            @ sp 16 @ ''WHERE '' @ user_id_column @ '' = $user_id'' @ nl
            @ sp 12,
            parameters)
         else
           (let declarations = declarations @ '' DECLARE $data AS Json;'';
                data = ''$data'';
                parameters = AList.update ''$data'' (VJson (dump_into_json p user_id)) parameters
            in (nl @ sp 16 @ declarations @ nl
                @ sp 16 @ nl
                @ sp 16 @ ''UPDATE '' @ users_table @ nl
                @ sp 16 @ ''SET '' @ data_column @ '' = '' @ data @ nl
                @ sp 16 @ ''WHERE '' @ user_id_column @ '' = $user_id'' @ nl
                @ sp 12,
                parameters)))"

definition update_database ::
  "dict_persistence \<Rightarrow> int \<Rightarrow> bool \<Rightarrow> ydb_client \<Rightarrow> (error + unit) \<times> ydb_client" where
  "update_database p user_id err y =
     (case execute_query (fst (update_database_request p user_id err))
             (snd (update_database_request p user_id err)) y of
        (Inl e, y') \<Rightarrow> (Inl e, y')
      | (Inr _, y') \<Rightarrow> (Inr (), y'))"

subsection \<open>\<open>YDBClient.upsert_new_user\<close>\<close>

record tg_user =
  u_id :: int
  u_first_name :: string
  u_last_name :: "string option"
  u_username :: "string option"

definition upsert_new_user_request :: "tg_user \<Rightarrow> string \<times> params" where
  "upsert_new_user_request u =
     (let columns_string = user_id_column @ '', '' @ first_name_column;
          values_string = ''$user_id, $first_name'';
          declarations = ''DECLARE $user_id AS Uint64; DECLARE $first_name AS Utf8;'';
          parameters = [(''$user_id'', VInt (u_id u)), (''$first_name'', VUtf8 (u_first_name u))];
          (columns_string, values_string, declarations, parameters) =
            (case u_last_name u of
               None \<Rightarrow> (columns_string, values_string, declarations, parameters)
             | Some last_name \<Rightarrow>
                 (columns_string @ '', '' @ last_name_column,
                  values_string @ '', $last_name'',
                  declarations @ '' DECLARE $last_name AS Utf8;'',
                  AList.update ''$last_name'' (VUtf8 last_name) parameters));
          (columns_string, values_string, declarations, parameters) =
            (case u_username u of
               None \<Rightarrow> (columns_string, values_string, declarations, parameters)
             | Some username \<Rightarrow>
                 (columns_string @ '', '' @ username_column,
                  values_string @ '', $username'',
                  declarations @ '' DECLARE $username AS Utf8;'',
                  AList.update ''$username'' (VUtf8 username) parameters));
          query = nl @ sp 12 @ declarations @ nl
                @ nl
                @ sp 12 @ ''UPSERT INTO '' @ users_table @ nl
                @ sp 12 @ ''('' @ columns_string @ '')'' @ nl
                @ sp 12 @ ''VALUES'' @ nl
                @ sp 12 @ ''('' @ values_string @ '')'' @ nl
                @ sp 8
      in (query, parameters))"

definition upsert_new_user :: "tg_user \<Rightarrow> ydb_client \<Rightarrow> (error + unit) \<times> ydb_client" where
  "upsert_new_user u y =
     (case execute_query (fst (upsert_new_user_request u)) (snd (upsert_new_user_request u)) y of
        (Inl e, y') \<Rightarrow> (Inl e, y')
      | (Inr _, y') \<Rightarrow> (Inr (), y'))"

section \<open>Handlers and the dispatcher\<close>

text \<open>
  An incoming update after \<open>Update.de_json\<close>: the user it comes from, when it has one,
  and the content that the filters of the handlers look at. An event whose body
  \<open>json.loads\<close> or \<open>Update.de_json\<close> rejects is \<open>Malformed\<close>.
\<close>

record tg_update =
  effective_user :: "tg_user option"
  content :: string



text \<open>
  A handler callback works on \<open>context.user_data\<close> (the scratch mapping of the user) and
  may send statements of its own to the store; it returns a value (for a callback of a
  conversation the next state, or \<open>None\<close>) or raises. The replies it sends to the user
  are outside the model.
\<close>

datatype ret = Returned "state option" | Raised

type_synonym callback = "tg_update \<Rightarrow> scratch \<Rightarrow> row list \<Rightarrow> (scratch \<times> row list) \<times> ret"

text \<open>
  A \<open>ConversationHandler\<close>: its name and settings, its tables of entry points, states and
  fallbacks as the function \<open>ch_select\<close> from the current state (\<open>None\<close>: not started) and
  the update to the callback of the first matching handler, and its mutable dict
  \<open>conversations\<close>.
\<close>

record conv_handler =
  ch_name :: string
  ch_per_user :: bool
  ch_per_chat :: bool
  ch_per_message :: bool
  ch_persistent :: bool
  ch_select :: "state option \<Rightarrow> tg_update \<Rightarrow> callback option"
  ch_conversations :: conv_dict

datatype handler = Plain "tg_update \<Rightarrow> bool" callback | Conversation conv_handler

text \<open>
  The program state: the \<open>PersistentDispatcher\<close> of \<open>index.py\<close> (its persistence, its handler
  groups in ascending order, its error handlers, its \<open>user_data\<close>) and the global
  \<open>ydb_client\<close>. \<open>e_persistence\<close> is \<open>None\<close> for a dispatcher without persistence and the
  \<open>YDBPersistence\<close> object otherwise.
\<close>

record engine =
  e_persistence :: "dict_persistence option"
  e_groups :: "(int \<times> handler list) list"
  e_error_handlers :: "(scratch \<Rightarrow> scratch) list"
  e_user_data :: "int \<rightharpoonup> scratch"
  e_ydb :: ydb_client

subsection \<open>Library methods the repository calls\<close>

text \<open>
  \<open>DictPersistence.get_user_data()\<close> and \<open>DictPersistence.get_conversations(name)\<close>: each
  creates its dict when it is \<open>None\<close> and returns a copy.
\<close>

definition get_user_data :: "dict_persistence \<Rightarrow> (int \<rightharpoonup> scratch) \<times> dict_persistence" where
  "get_user_data p =
     (let ud = (case p_user_data p of None \<Rightarrow> Map.empty | Some m \<Rightarrow> m)
      in (ud, p\<lparr>p_user_data := Some ud\<rparr>))"

definition get_conversations :: "dict_persistence \<Rightarrow> string \<Rightarrow> conv_dict \<times> dict_persistence" where
  "get_conversations p name =
     (let convs = (case p_conversations p of None \<Rightarrow> [] | Some c \<Rightarrow> c)
      in (conv_lookup convs name, p\<lparr>p_conversations := Some convs\<rparr>))"

text \<open>
  \<open>Dispatcher.add_handler(handler, group)\<close>: a persistent, named conversation handler
  needs a persistence and takes its conversations from it; the handler is appended to
  its group, the groups stay sorted.
\<close>

fun insert_handler :: "handler \<Rightarrow> int \<Rightarrow> (int \<times> handler list) list \<Rightarrow> (int \<times> handler list) list" where
  "insert_handler h g [] = [(g, [h])]"
| "insert_handler h g ((g', hs) # rest) =
     (if g = g' then (g', hs @ [h]) # rest
      else if g < g' then (g, [h]) # (g', hs) # rest
      else (g', hs) # insert_handler h g rest)"

definition lib_add_handler :: "engine \<Rightarrow> handler \<Rightarrow> int \<Rightarrow> error + engine" where
  "lib_add_handler d h g =
     (case h of
        Plain _ _ \<Rightarrow> Inr (d\<lparr>e_groups := insert_handler h g (e_groups d)\<rparr>)
      | Conversation c \<Rightarrow>
          if ch_persistent c \<and> ch_name c \<noteq> [] then
            (case e_persistence d of
               None \<Rightarrow> Inl (ValueError ''ConversationHandler can not be persistent if dispatcher has no persistence'')
             | Some p \<Rightarrow>
                 (let (cd, p') = get_conversations p (ch_name c)
                  in Inr (d\<lparr>e_persistence := Some p',
                            e_groups := insert_handler
                              (Conversation (c\<lparr>ch_conversations := cd\<rparr>)) g (e_groups d)\<rparr>)))
          else Inr (d\<lparr>e_groups := insert_handler h g (e_groups d)\<rparr>))"

text \<open>
  \<open>Dispatcher.update_persistence(update)\<close> with \<open>store_user_data\<close> only: the scratch
  mapping of the user of the update (created empty by the \<open>defaultdict\<close> when missing)
  goes to \<open>update_user_data\<close>.
\<close>

definition update_persistence :: "engine \<Rightarrow> int \<Rightarrow> engine" where
  "update_persistence d user_id =
     (case e_persistence d of
        None \<Rightarrow> d
      | Some p \<Rightarrow>
          (let data = (case e_user_data d user_id of None \<Rightarrow> Map.empty | Some s \<Rightarrow> s)
           in d\<lparr>e_user_data := (e_user_data d)(user_id \<mapsto> data),
                e_persistence := Some (update_user_data p user_id data)\<rparr>))"

text \<open>
  \<open>ConversationHandler._update_state(new_state, key)\<close>:
  \<^verbatim>\<open>
  if new_state == self.END:
      if key in self.conversations:
          del self.conversations[key]
          if self.persistent and self.persistence and self.name:
              self.persistence.update_conversation(self.name, key, None)
  elif new_state is not None:
      self.conversations[key] = new_state
      if self.persistent and self.persistence and self.name:
          self.persistence.update_conversation(self.name, key, new_state)
  \<close>
\<close>

definition persist_state ::
  "conv_handler \<Rightarrow> int list \<Rightarrow> state option \<Rightarrow> dict_persistence option
     \<Rightarrow> dict_persistence option" where
  "persist_state c key st pers =
     (if ch_persistent c \<and> ch_name c \<noteq> [] then
        (case pers of None \<Rightarrow> None | Some p \<Rightarrow> Some (update_conversation p (ch_name c) key st))
      else pers)"

definition conv_update_state ::
  "conv_handler \<Rightarrow> state option \<Rightarrow> int list \<Rightarrow> dict_persistence option
     \<Rightarrow> conv_handler \<times> dict_persistence option" where
  "conv_update_state c new_state key pers =
     (case new_state of
        None \<Rightarrow> (c, pers)
      | Some s \<Rightarrow>
          if s = END then
            (if ch_conversations c key \<noteq> None
             then (c\<lparr>ch_conversations := (ch_conversations c)(key := None)\<rparr>,
                   persist_state c key None pers)
             else (c, pers))
          else (c\<lparr>ch_conversations := (ch_conversations c)(key \<mapsto> Some s)\<rparr>,
                persist_state c key (Some s) pers))"

text \<open>
  \<open>Dispatcher.process_update(update)\<close>: in every group, in ascending order, the first
  handler whose \<open>check_update\<close> accepts the update handles it. The context of the
  callback holds \<open>dispatcher.user_data[user.id]\<close> (created empty when missing). An
  exception of the callback goes to the error handlers. When some handler has
  handled the update, \<open>update_persistence\<close> runs at the end.
\<close>

definition check_update :: "handler \<Rightarrow> tg_update \<Rightarrow> int \<Rightarrow> callback option" where
  "check_update h upd user_id =
     (case h of
        Plain chk cb \<Rightarrow> if chk upd then Some cb else None
      | Conversation c \<Rightarrow> ch_select c (py_get (ch_conversations c) [user_id]) upd)"

definition run_callback :: "callback \<Rightarrow> tg_update \<Rightarrow> int \<Rightarrow> engine \<Rightarrow> engine \<times> ret" where
  "run_callback cb upd user_id d =
     (let scr = (case e_user_data d user_id of None \<Rightarrow> Map.empty | Some s \<Rightarrow> s);
          res = cb upd scr (y_rows (e_ydb d))
      in (d\<lparr>e_user_data := (e_user_data d)(user_id \<mapsto> fst (fst res)),
            e_ydb := (e_ydb d)\<lparr>y_rows := snd (fst res)\<rparr>\<rparr>,
          snd res))"

definition handle_update ::
  "handler \<Rightarrow> callback \<Rightarrow> tg_update \<Rightarrow> int \<Rightarrow> engine \<Rightarrow> handler \<times> engine \<times> bool" where
  "handle_update h cb upd user_id d =
     (let (d1, r) = run_callback cb upd user_id d
      in case r of
           Raised \<Rightarrow> (h, d1, True)
         | Returned new_state \<Rightarrow>
             (case h of
                Plain _ _ \<Rightarrow> (h, d1, False)
              | Conversation c \<Rightarrow>
                  (let (c', p') = conv_update_state c new_state [user_id] (e_persistence d1)
                   in (Conversation c', d1\<lparr>e_persistence := p'\<rparr>, False))))"

datatype outcome = NoMatch | Handled | Failed

fun run_group :: "handler list \<Rightarrow> tg_update \<Rightarrow> int \<Rightarrow> engine \<Rightarrow> handler list \<times> engine \<times> outcome" where
  "run_group [] upd user_id d = ([], d, NoMatch)"
| "run_group (h # hs) upd user_id d =
     (case check_update h upd user_id of
        Some cb \<Rightarrow>
          (let (h', d', raised) = handle_update h cb upd user_id d
           in (h' # hs, d', if raised then Failed else Handled))
      | None \<Rightarrow>
          (let (hs', d', out) = run_group hs upd user_id d
           in (h # hs', d', out)))"

definition dispatch_error :: "engine \<Rightarrow> int \<Rightarrow> engine" where
  "dispatch_error d user_id =
     fold (\<lambda>eh d'. d'\<lparr>e_user_data := (e_user_data d')(user_id \<mapsto>
                          eh (case e_user_data d' user_id of None \<Rightarrow> Map.empty | Some s \<Rightarrow> s))\<rparr>)
          (e_error_handlers d) d"

fun run_groups ::
  "(int \<times> handler list) list \<Rightarrow> tg_update \<Rightarrow> int \<Rightarrow> engine
     \<Rightarrow> (int \<times> handler list) list \<times> engine \<times> bool" where
  "run_groups [] upd user_id d = ([], d, False)"
| "run_groups ((g, hs) # gs) upd user_id d =
     (let (hs', d1, out) = run_group hs upd user_id d;
          d2 = (if out = Failed then dispatch_error d1 user_id else d1);
          (gs', d3, handled) = run_groups gs upd user_id d2
      in ((g, hs') # gs', d3, out \<noteq> NoMatch \<or> handled))"

definition dispatcher_process_update :: "engine \<Rightarrow> tg_update \<Rightarrow> int \<Rightarrow> engine" where
  "dispatcher_process_update d upd user_id =
     (let (gs, d1, handled) = run_groups (e_groups d) upd user_id d;
          d2 = d1\<lparr>e_groups := gs\<rparr>
      in if handled then update_persistence d2 user_id else d2)"

subsection \<open>\<open>PersistentDispatcher\<close> (persistence.py)\<close>

text \<open>
  \<open>PersistentDispatcher.add_handler\<close>: the library method runs first; then, for a
  conversation handler on a dispatcher with \<open>YDBPersistence\<close>, the four settings are
  checked in the order of the source.
\<close>

definition add_handler :: "engine \<Rightarrow> handler \<Rightarrow> int \<Rightarrow> error + engine" where
  "add_handler d h g =
     (case lib_add_handler d h g of
        Inl e \<Rightarrow> Inl e
      | Inr d' \<Rightarrow>
          (case h of
             Plain _ _ \<Rightarrow> Inr d'
           | Conversation c \<Rightarrow>
               if e_persistence d' \<noteq> None then
                 (if \<not> ch_per_user c then
                    Inl (ValueError ''YDBPersistence requires per_user=True for ConversationHandler'')
                  else if ch_per_chat c then
                    Inl (ValueError ''YDBPersistence requires per_chat=False for ConversationHandler'')
                  else if ch_per_message c then
                    Inl (ValueError ''YDBPersistence requires per_message=False for ConversationHandler'')
                  else if \<not> ch_persistent c then
                    Inl (ValueError ''ConversationHandler is not persistent'')
                  else Inr d')
               else Inr d'))"

text \<open>
  The last loop of \<open>load_persistence_data\<close>: every persistent conversation handler takes
  its conversations from the persistence.
\<close>

fun load_handlers :: "handler list \<Rightarrow> dict_persistence \<Rightarrow> handler list \<times> dict_persistence" where
  "load_handlers [] p = ([], p)"
| "load_handlers (Plain chk cb # hs) p =
     (let (hs', p') = load_handlers hs p in (Plain chk cb # hs', p'))"
| "load_handlers (Conversation c # hs) p =
     (if ch_persistent c then
        (let (cd, p1) = get_conversations p (ch_name c);
             (hs', p') = load_handlers hs p1
         in (Conversation (c\<lparr>ch_conversations := cd\<rparr>) # hs', p'))
      else (let (hs', p') = load_handlers hs p in (Conversation c # hs', p')))"

fun load_groups ::
  "(int \<times> handler list) list \<Rightarrow> dict_persistence
     \<Rightarrow> (int \<times> handler list) list \<times> dict_persistence" where
  "load_groups [] p = ([], p)"
| "load_groups ((g, hs) # gs) p =
     (let (hs', p1) = load_handlers hs p;
          (gs', p') = load_groups gs p1
      in ((g, hs') # gs', p'))"

text \<open>
  \<open>PersistentDispatcher.load_persistence_data(user_id)\<close>: nothing without a persistence;
  otherwise \<open>get_data\<close>, \<open>update_data\<close>, then \<open>dispatcher.user_data\<close> is replaced by the
  persistence's (only \<open>store_user_data\<close> is set), then the conversations loop.
\<close>

definition load_persistence_data :: "engine \<Rightarrow> int \<Rightarrow> (error + unit) \<times> engine" where
  "load_persistence_data d user_id =
     (case e_persistence d of
        None \<Rightarrow> (Inr (), d)
      | Some p \<Rightarrow>
          (case get_data user_id (e_ydb d) of
             (Inl e, y) \<Rightarrow> (Inl e, d\<lparr>e_ydb := y\<rparr>)
           | (Inr data, y) \<Rightarrow>
               (let p1 = update_data p user_id data;
                    (ud, p2) = get_user_data p1;
                    (gs, p3) = load_groups (e_groups d) p2
                in (Inr (), d\<lparr>e_persistence := Some p3, e_groups := gs,
                                e_user_data := ud, e_ydb := y\<rparr>))))"





section \<open>The two override callbacks (handlers.py)\<close>

text \<open>
  \<open>on_unknown\<close>, the callback of the catch-all \<open>TypeHandler\<close> that closes group 0: after
  its reply it removes the seven keys of an unfinished post and sets \<open>UNKNOWN\<close>.
  \<open>on_error\<close>, the error handler: after its notifications it sets \<open>ERROR\<close>.
\<close>

definition post_channel_keys :: "string list" where
  "post_channel_keys =
     [''post_channel_message'', ''post_channel_message_type'', ''post_channel_file_id'',
      ''post_channel_full_message'', ''post_channel_public_footer'',
      ''post_channel_private_footer'', ''post_channel_footer_max_length'']"

definition on_unknown :: callback where
  "on_unknown upd scr rows =
     (((fold (\<lambda>k s. s(k := None)) post_channel_keys scr)(''UNKNOWN'' \<mapsto> JBool True), rows),
      Returned None)"

definition on_error :: "scratch \<Rightarrow> scratch" where
  "on_error scr = scr(''ERROR'' \<mapsto> JBool True)"

text \<open>
  \<open>on_every\<close>, the callback of group 1: it sends the usage statement for the user of
  the update and reads or writes nothing in \<open>context.user_data\<close>. The answer of the
  store to that statement is the parameter \<open>usage\<close> (\<open>None\<close>: the call raises).
\<close>

definition on_every :: "(int \<Rightarrow> row list \<Rightarrow> row list option) \<Rightarrow> callback" where
  "on_every usage upd scr rows =
     (case effective_user upd of
        None \<Rightarrow> ((scr, rows), Raised)
      | Some u \<Rightarrow>
          (case usage (u_id u) rows of
             None \<Rightarrow> ((scr, rows), Raised)
           | Some rows' \<Rightarrow> ((scr, rows'), Returned None)))"

text \<open>
  \<open>add_handlers(dispatcher)\<close>: the handlers of the program go to group 0 in the order
  of the source, the catch-all \<open>TypeHandler(Update, on_unknown)\<close> last; the usage counter
  \<open>on_every\<close> is the only handler of group 1; \<open>on_error\<close> is the error handler. The
  handlers before the catch-all are a parameter.
\<close>

definition catch_all :: handler where
  "catch_all = Plain (\<lambda>upd. True) on_unknown"

fun add_all :: "handler list \<Rightarrow> int \<Rightarrow> engine \<Rightarrow> error + engine" where
  "add_all [] g d = Inr d"
| "add_all (h # hs) g d =
     (case add_handler d h g of Inl e \<Rightarrow> Inl e | Inr d' \<Rightarrow> add_all hs g d')"

definition add_handlers ::
  "handler list \<Rightarrow> (int \<Rightarrow> row list \<Rightarrow> row list option) \<Rightarrow> engine \<Rightarrow> error + engine" where
  "add_handlers hs usage d =
     (case add_all (hs @ [catch_all]) 0 d of
        Inl e \<Rightarrow> Inl e
      | Inr d1 \<Rightarrow>
          (case add_handler d1 (Plain (\<lambda>upd. True) (on_every usage)) 1 of
             Inl e \<Rightarrow> Inl e
           | Inr d2 \<Rightarrow> Inr (d2\<lparr>e_error_handlers := e_error_handlers d2 @ [on_error]\<rparr>)))"

section \<open>The entry point (index.py)\<close>

text \<open>The dispatcher that \<open>index.py\<close> constructs, before \<open>add_handlers\<close>.\<close>

definition new_dispatcher :: "ydb_client \<Rightarrow> engine" where
  "new_dispatcher y =
     \<lparr>e_persistence = Some fresh_persistence, e_groups = [], e_error_handlers = [],
      e_user_data = Map.empty, e_ydb = y\<rparr>"

text \<open>
  \<open>dispatcher.user_data.get(user_id, {}).pop(key, False)\<close>. Dicts are values here: the
  scratch mapping of the dispatcher and the entry of the persistence are two values,
  whereas in Python \<open>update_user_data\<close> stores the dispatcher's own dict, so that a pop
  can reach the stored entry as well. Both readings give the same persistence whenever a
  flag that is present is truthy, since \<open>process_update\<close> then calls
  \<open>update_persistence\<close>; the statements about the flags are made under that condition.
\<close>

definition pop_flag :: "engine \<Rightarrow> int \<Rightarrow> string \<Rightarrow> jval \<times> engine" where
  "pop_flag d user_id k =
     (case e_user_data d user_id of
        None \<Rightarrow> (JBool False, d)
      | Some scr \<Rightarrow>
          (case scr k of
             None \<Rightarrow> (JBool False, d)
           | Some v \<Rightarrow> (v, d\<lparr>e_user_data := (e_user_data d)(user_id \<mapsto> scr(k := None))\<rparr>)))"



section \<open>Notions used in the statements\<close>

text \<open>What one pair of a document's conversations section becomes in the persistence.\<close>

definition load_entry :: "int \<Rightarrow> string \<times> state \<Rightarrow> string \<times> conv_dict" where
  "load_entry user_id e = (fst e, [[user_id] \<mapsto> Some (snd e)])"

text \<open>
  The number of failing executions that the store has in front of its first answer, and
  the client after a statement has gone through them and has been answered.
\<close>

definition leading_faults :: "ydb_client \<Rightarrow> nat" where
  "leading_faults y = length (takeWhile (\<lambda>b. b) (y_faults y))"

definition after_attempts :: "string \<Rightarrow> params \<Rightarrow> ydb_client \<Rightarrow> ydb_client" where
  "after_attempts q ps y =
     y\<lparr>y_executed := y_executed y @ replicate (leading_faults y + 1) (q, ps),
       y_faults := drop (leading_faults y + 1) (y_faults y)\<rparr>"

text \<open>What the store answers to a statement text on given rows.\<close>

definition answer :: "string \<Rightarrow> params \<Rightarrow> row list \<Rightarrow> (row list \<times> cell option list) option" where
  "answer q ps rows =
     (case parse_statement (tokens q) of None \<Rightarrow> None | Some st \<Rightarrow> run_stmt st ps rows)"

text \<open>The document cells of the rows that match a user id.\<close>

definition user_cells :: "row list \<Rightarrow> int \<Rightarrow> cell option list" where
  "user_cells rows user_id =
     map (\<lambda>r. r data_column) (filter (\<lambda>r. r user_id_column = Some (VInt user_id)) rows)"

text \<open>
  The identity columns that \<open>upsert_new_user\<close> names for a user, the values it binds to
  them, and the table after the upsert.
\<close>

definition identity_columns :: "tg_user \<Rightarrow> string list" where
  "identity_columns u =
     [user_id_column, first_name_column]
     @ (case u_last_name u of None \<Rightarrow> [] | Some _ \<Rightarrow> [last_name_column])
     @ (case u_username u of None \<Rightarrow> [] | Some _ \<Rightarrow> [username_column])"

definition identity_row :: "tg_user \<Rightarrow> row" where
  "identity_row u =
     (\<lambda>c. if c = user_id_column then Some (VInt (u_id u))
          else if c = first_name_column then Some (VUtf8 (u_first_name u))
          else if c = last_name_column then map_option VUtf8 (u_last_name u)
          else if c = username_column then map_option VUtf8 (u_username u)
          else None)"

definition upserted :: "tg_user \<Rightarrow> row list \<Rightarrow> row list" where
  "upserted u rows =
     (if list_ex (\<lambda>r. r user_id_column = Some (VInt (u_id u))) rows
      then map (\<lambda>r. if r user_id_column = Some (VInt (u_id u)) then r ++ identity_row u else r) rows
      else rows @ [identity_row u])"


definition flag_set :: "engine \<Rightarrow> int \<Rightarrow> string \<Rightarrow> bool" where
  "flag_set d user_id k = truthy (fst (pop_flag d user_id k))"


definition dispatched :: "engine \<Rightarrow> tg_update \<Rightarrow> int \<Rightarrow> engine" where
  "dispatched d upd user_id =
     dispatcher_process_update (snd (load_persistence_data d user_id)) upd user_id"









definition user_map :: "engine \<Rightarrow> (int \<rightharpoonup> scratch) option" where
  "user_map d = (case e_persistence d of None \<Rightarrow> None | Some p \<Rightarrow> p_user_data p)"





text \<open>
  The conversations of a persistence (none when the attribute is \<open>None\<close>), the state it
  holds for a conversation name and a key, and the persistence in which every name has
  one entry, as in a \<open>dict\<close>.
\<close>

definition convs_of :: "dict_persistence \<Rightarrow> (string \<times> conv_dict) list" where
  "convs_of p = (case p_conversations p of None \<Rightarrow> [] | Some c \<Rightarrow> c)"

definition state_of :: "dict_persistence option \<Rightarrow> string \<Rightarrow> int list \<Rightarrow> state option" where
  "state_of pers name key =
     (case pers of None \<Rightarrow> None | Some p \<Rightarrow> py_get (conv_lookup (convs_of p) name) key)"



definition synced :: "dict_persistence option \<Rightarrow> handler \<Rightarrow> bool" where
  "synced pers h =
     (case h of
        Plain chk cb \<Rightarrow> True
      | Conversation c \<Rightarrow>
          ch_persistent c \<and> ch_name c \<noteq> []
          \<and> (\<forall>key. state_of pers (ch_name c) key \<noteq> None \<longrightarrow> ch_conversations c key \<noteq> None))"





section \<open>Concrete instances\<close>

definition demo_doc :: document where
  "demo_doc = \<lparr>doc_user_data = Some [''in_meetings'' \<mapsto> JBool True],
               doc_conversations = Some [(''meetings_conv'', SStr ''MEETINGS_CHOOSE_ACTION'')]\<rparr>"

definition demo_store :: "row list \<Rightarrow> ydb_client" where
  "demo_store rows = \<lparr>y_rows = rows, y_issued = [], y_executed = [], y_faults = []\<rparr>"

definition demo_conv :: conv_handler where
  "demo_conv = \<lparr>ch_name = ''C'', ch_per_user = True, ch_per_chat = True, ch_per_message = False,
      ch_persistent = True, ch_select = (\<lambda>st upd. None), ch_conversations = Map.empty\<rparr>"

definition demo_user :: tg_user where
  "demo_user = \<lparr>u_id = 7, u_first_name = ''Ann'', u_last_name = None, u_username = Some ''ann''\<rparr>"

definition demo_row :: row where
  "demo_row = [user_id_column \<mapsto> VInt 7, first_name_column \<mapsto> VUtf8 ''A'',
               last_name_column \<mapsto> VUtf8 ''B'',
               usage_column \<mapsto> VInt 3, data_column \<mapsto> VJson demo_doc,
               meetings_ts_column \<mapsto> VUtf8 ''2022-07-01'']"

text \<open>
  An engine with one conversation and the two handlers that \<open>add_handlers\<close> always
  registers; the usage statement answers (\<open>usage_ok\<close>) or raises (\<open>usage_down\<close>).
\<close>

definition demo_select :: "state option \<Rightarrow> tg_update \<Rightarrow> callback option" where
  "demo_select st upd =
     (if content upd = ''/meetings''
      then Some (\<lambda>u s r. ((s(''meetings_name'' \<mapsto> JStr ''Ann''), r),
                           Returned (Some (SStr ''MEETINGS_CHOOSE_ACTION''))))
      else if content upd = ''boom''
      then Some (\<lambda>u s r. ((s(''in_meetings'' \<mapsto> JBool False), r), Raised))
      else if st = Some (SStr ''MEETINGS_CHOOSE_ACTION'') \<and> content upd = ''stop''
      then Some (\<lambda>u s r. ((s, r), Returned (Some END)))
      else None)"

definition demo_meetings :: conv_handler where
  "demo_meetings = \<lparr>ch_name = ''meetings_conv'', ch_per_user = True, ch_per_chat = False,
      ch_per_message = False, ch_persistent = True, ch_select = demo_select,
      ch_conversations = Map.empty\<rparr>"

definition demo_engine :: "(int \<Rightarrow> row list \<Rightarrow> row list option) \<Rightarrow> row list \<Rightarrow> engine" where
  "demo_engine usage rows =
     \<lparr>e_persistence = Some fresh_persistence,
      e_groups = [(0, [Conversation demo_meetings, catch_all]),
                  (1, [Plain (\<lambda>upd. True) (on_every usage)])],
      e_error_handlers = [on_error],
      e_user_data = Map.empty,
      e_ydb = demo_store rows\<rparr>"

definition demo_update :: "string \<Rightarrow> tg_update" where
  "demo_update c = \<lparr>effective_user = Some demo_user, content = c\<rparr>"

definition usage_ok :: "int \<Rightarrow> row list \<Rightarrow> row list option" where
  "usage_ok uid rows = Some rows"

definition usage_down :: "int \<Rightarrow> row list \<Rightarrow> row list option" where
  "usage_down uid rows = None"

section \<open>Association lists as Python dicts\<close>

lemma update_append_fresh:
  "k \<notin> fst ` set xs \<Longrightarrow> AList.update k v (xs @ [(k, w)]) = xs @ [(k, v)]"
  by (induction xs) auto

lemma update_fresh:
  "k \<notin> fst ` set xs \<Longrightarrow> AList.update k v xs = xs @ [(k, v)]"
  by (induction xs) auto

section \<open>Loading a document and dumping it again\<close>

lemma update_conversation_fresh_name:
  assumes "p_conversations p = Some acc" "name \<notin> fst ` set acc"
  shows "update_conversation p name key (Some st) =
           p\<lparr>p_conversations := Some (acc @ [(name, [key \<mapsto> Some st])])\<rparr>"
proof -
  have m: "map_of acc name = None" using assms(2) by (simp add: map_of_eq_None_iff)
  show ?thesis using assms m
    by (simp add: update_conversation_def setdefault_def conv_lookup_def py_get_def
        Let_def map_add_def update_append_fresh)
qed

lemma update_conversation_none_conversations:
  assumes "p_conversations p = None"
  shows "update_conversation p name key (Some st) =
           p\<lparr>p_conversations := Some [(name, [key \<mapsto> Some st])]\<rparr>"
  using assms
  by (simp add: update_conversation_def setdefault_def conv_lookup_def py_get_def)

lemma fold_update_conversation:
  assumes "p_conversations p = Some acc" "distinct (map fst cs)"
    "fst ` set cs \<inter> fst ` set acc = {}"
  shows "fold (\<lambda>(conv_name, st) q. update_conversation q conv_name [user_id] (Some st)) cs p =
           p\<lparr>p_conversations := Some (acc @ map (load_entry user_id) cs)\<rparr>"
  using assms
proof (induction cs arbitrary: p acc)
  case Nil
  then show ?case by simp
next
  case (Cons c cs)
  obtain n s where c: "c = (n, s)" by (cases c)
  have fresh: "n \<notin> fst ` set acc" using Cons.prems(3) c by auto
  let ?p1 = "p\<lparr>p_conversations := Some (acc @ [(n, [[user_id] \<mapsto> Some s])])\<rparr>"
  have step: "update_conversation p n [user_id] (Some s) = ?p1"
    using update_conversation_fresh_name[OF Cons.prems(1) fresh] .
  have d: "distinct (map fst cs)" using Cons.prems(2) by simp
  have disj: "fst ` set cs \<inter> fst ` set (acc @ [(n, [[user_id] \<mapsto> Some s])]) = {}"
    using Cons.prems(2,3) c by auto
  have "fold (\<lambda>(conv_name, st) q. update_conversation q conv_name [user_id] (Some st)) cs ?p1
        = ?p1\<lparr>p_conversations :=
               Some ((acc @ [(n, [[user_id] \<mapsto> Some s])]) @ map (load_entry user_id) cs)\<rparr>"
    by (rule Cons.IH[OF _ d disj]) simp
  then show ?case using step c by (simp add: load_entry_def)
qed

lemma conversations_data_fold:
  assumes "distinct (map fst cs)" "fst ` set cs \<inter> fst ` set acc = {}"
  shows "fold (\<lambda>(conv_name, conv_data) acc.
             case py_get conv_data [user_id] of
               None \<Rightarrow> acc
             | Some st \<Rightarrow> AList.update conv_name st acc)
          (map (load_entry user_id) cs) acc = acc @ cs"
  using assms
proof (induction cs arbitrary: acc)
  case Nil
  then show ?case by simp
next
  case (Cons c cs)
  obtain n s where c: "c = (n, s)" by (cases c)
  have fresh: "n \<notin> fst ` set acc" using Cons.prems(2) c by auto
  have d: "distinct (map fst cs)" using Cons.prems(1) by simp
  have disj: "fst ` set cs \<inter> fst ` set (acc @ [(n, s)]) = {}"
    using Cons.prems c by auto
  show ?case using Cons.IH[OF d disj] c fresh
    by (simp add: load_entry_def py_get_def update_fresh)
qed

lemma conversations_data_loaded:
  "distinct (map fst cs) \<Longrightarrow> conversations_data (map (load_entry user_id) cs) user_id = cs"
  unfolding conversations_data_def using conversations_data_fold[of cs "[]" user_id] by simp

lemma update_data_fresh:
  assumes "distinct (map fst cs)" "cs \<noteq> []"
  shows "update_data fresh_persistence user_id
           \<lparr>doc_user_data = Some ud, doc_conversations = Some cs\<rparr>
     = \<lparr>p_user_data = Some [user_id \<mapsto> ud],
        p_conversations = Some (map (load_entry user_id) cs)\<rparr>"
proof -
  obtain c cs' where cs: "cs = c # cs'" using assms(2) by (cases cs) auto
  obtain n s where c: "c = (n, s)" by (cases c)
  let ?p1 = "\<lparr>p_user_data = Some [user_id \<mapsto> ud], p_conversations = None\<rparr>"
  have p1: "update_user_data fresh_persistence user_id ud = ?p1"
    by (simp add: update_user_data_def fresh_persistence_def)
  let ?p2 = "\<lparr>p_user_data = Some [user_id \<mapsto> ud],
             p_conversations = Some [(n, [[user_id] \<mapsto> Some s])]\<rparr>"
  have p2: "update_conversation ?p1 n [user_id] (Some s) = ?p2"
    by (simp add: update_conversation_none_conversations)
  have d: "distinct (map fst cs')"
    and disj: "fst ` set cs' \<inter> fst ` set [(n, [[user_id] \<mapsto> Some s])] = {}"
    using assms(1) cs c by auto
  have "fold (\<lambda>(conv_name, st) q. update_conversation q conv_name [user_id] (Some st)) cs' ?p2
     = ?p2\<lparr>p_conversations :=
            Some ([(n, [[user_id] \<mapsto> Some s])] @ map (load_entry user_id) cs')\<rparr>"
    by (rule fold_update_conversation[OF _ d disj]) simp
  then show ?thesis using p1 p2 cs c
    by (simp add: update_data_def load_entry_def)
qed

text \<open>
  C2. A document whose \<open>user_data\<close> section and \<open>conversations\<close> section are both
  non-empty (the conversations section being a dict: its names are distinct) is loaded
  into a fresh persistence by \<open>update_data\<close>; dumping that persistence for the same user,
  with nothing done in between, gives the document back.
\<close>

theorem serialize_load_roundtrip:
  assumes "doc_user_data doc = Some ud" "ud \<noteq> Map.empty"
    and "doc_conversations doc = Some cs" "cs \<noteq> []" "distinct (map fst cs)"
  shows "dump_into_json (update_data fresh_persistence user_id doc) user_id = doc"
proof -
  have doc: "doc = \<lparr>doc_user_data = Some ud, doc_conversations = Some cs\<rparr>"
    using assms(1,3) by (cases doc) simp
  show ?thesis
    unfolding doc update_data_fresh[OF assms(5,4)]
    using assms(4,5) by (simp add: dump_into_json_def conversations_data_loaded)
qed

theorem serialize_load_roundtrip_witness:
  "[''seen_memes'' \<mapsto> JArr [JInt 3]] \<noteq> Map.empty
   \<and> [(''meetings_conv'', SStr ''MEETINGS_GET_NAME''), (''mortuary_conv'', SStr ''MORTUARY_CHOOSE_ACTION'')] \<noteq> []
   \<and> distinct (map fst [(''meetings_conv'', SStr ''MEETINGS_GET_NAME''), (''mortuary_conv'', SStr ''MORTUARY_CHOOSE_ACTION'')])
   \<and> dump_into_json
       (update_data fresh_persistence 42
          \<lparr>doc_user_data = Some [''seen_memes'' \<mapsto> JArr [JInt 3]],
           doc_conversations = Some [(''meetings_conv'', SStr ''MEETINGS_GET_NAME''),
                                     (''mortuary_conv'', SStr ''MORTUARY_CHOOSE_ACTION'')]\<rparr>) 42
     = \<lparr>doc_user_data = Some [''seen_memes'' \<mapsto> JArr [JInt 3]],
        doc_conversations = Some [(''meetings_conv'', SStr ''MEETINGS_GET_NAME''),
                                  (''mortuary_conv'', SStr ''MORTUARY_CHOOSE_ACTION'')]\<rparr>"
  using serialize_load_roundtrip
    [of "\<lparr>doc_user_data = Some [''seen_memes'' \<mapsto> JArr [JInt 3]],
          doc_conversations = Some [(''meetings_conv'', SStr ''MEETINGS_GET_NAME''),
                                    (''mortuary_conv'', SStr ''MORTUARY_CHOOSE_ACTION'')]\<rparr>"
        "[''seen_memes'' \<mapsto> JArr [JInt 3]]"
        "[(''meetings_conv'', SStr ''MEETINGS_GET_NAME''), (''mortuary_conv'', SStr ''MORTUARY_CHOOSE_ACTION'')]"
        42]
  by simp

section \<open>The retrying executor\<close>

lemma execute_issued: "y_issued (snd (execute q ps y)) = y_issued y"
  by (simp add: execute_def Let_def split: list.splits option.splits prod.splits)

lemma retry_issued:
  "y_issued (snd (retry_operation_sync n (execute q ps) y)) = y_issued y"
proof (induction n arbitrary: y)
  case 0
  show ?case by (simp add: execute_issued)
next
  case (Suc n)
  obtain r y' where e: "execute q ps y = (r, y')" by (cases "execute q ps y")
  have i: "y_issued y' = y_issued y" using execute_issued[of q ps y] e by simp
  show ?case using e i Suc.IH[of y'] by (cases r) auto
qed

lemma execute_query_issued:
  "y_issued (snd (execute_query q ps y)) = y_issued y @ [(q, ps)]"
  by (simp add: execute_query_def retry_issued)

lemma execute_fault:
  "y_faults y = True # fs \<Longrightarrow>
   execute q ps y = (Inl Unavailable, y\<lparr>y_executed := y_executed y @ [(q, ps)], y_faults := fs\<rparr>)"
  by (simp add: execute_def)

lemma execute_answer:
  "leading_faults y = 0 \<Longrightarrow>
   execute q ps y =
     (let y1 = y\<lparr>y_executed := y_executed y @ [(q, ps)], y_faults := drop 1 (y_faults y)\<rparr>
      in case answer q ps (y_rows y) of
           None \<Rightarrow> (Inl GenericError, y1)
         | Some (rows, res) \<Rightarrow> (Inr res, y1\<lparr>y_rows := rows\<rparr>))"
  by (cases "y_faults y")
     (auto simp: execute_def leading_faults_def answer_def Let_def split: option.splits if_splits)

lemma retry_answer:
  "leading_faults y \<le> n \<Longrightarrow>
   retry_operation_sync n (execute q ps) y =
     (case answer q ps (y_rows y) of
        None \<Rightarrow> (Inl GenericError, after_attempts q ps y)
      | Some (rows, res) \<Rightarrow> (Inr res, (after_attempts q ps y)\<lparr>y_rows := rows\<rparr>))"
proof (induction n arbitrary: y)
  case 0
  then have z: "leading_faults y = 0" by simp
  show ?case using z by (simp add: execute_answer after_attempts_def Let_def split: option.splits)
next
  case (Suc n)
  show ?case
  proof (cases "leading_faults y = 0")
    case True
    then show ?thesis
      by (simp add: execute_answer after_attempts_def Let_def retriable_def split: option.splits)
  next
    case False
    then obtain fs where f: "y_faults y = True # fs"
      by (cases "y_faults y") (auto simp: leading_faults_def split: if_splits)
    let ?y1 = "y\<lparr>y_executed := y_executed y @ [(q, ps)], y_faults := fs\<rparr>"
    have l: "leading_faults y = Suc (leading_faults ?y1)"
      using f by (simp add: leading_faults_def)
    have le: "leading_faults ?y1 \<le> n" using Suc.prems l by simp
    have a: "after_attempts q ps ?y1 = after_attempts q ps y"
      using f l by (simp add: after_attempts_def replicate_append_same)
    have r: "retry_operation_sync n (execute q ps) ?y1 =
       (case answer q ps (y_rows y) of
          None \<Rightarrow> (Inl GenericError, after_attempts q ps y)
        | Some (rows, res) \<Rightarrow> (Inr res, (after_attempts q ps y)\<lparr>y_rows := rows\<rparr>))"
      using Suc.IH[OF le] unfolding a by simp
    show ?thesis
      by (simp add: execute_fault[OF f] retriable_def r)
  qed
qed

lemma execute_query_answer:
  "leading_faults y \<le> max_retries \<Longrightarrow>
   execute_query q ps y =
     (case answer q ps (y_rows y) of
        None \<Rightarrow> (Inl GenericError, (after_attempts q ps y)\<lparr>y_issued := y_issued y @ [(q, ps)]\<rparr>)
      | Some (rows, res) \<Rightarrow>
          (Inr res, (after_attempts q ps y)\<lparr>y_issued := y_issued y @ [(q, ps)], y_rows := rows\<rparr>))"
proof -
  let ?y0 = "y\<lparr>y_issued := y_issued y @ [(q, ps)]\<rparr>"
  assume "leading_faults y \<le> max_retries"
  then have "leading_faults ?y0 \<le> max_retries" by (simp add: leading_faults_def)
  from retry_answer[OF this, of q ps] show ?thesis
    by (simp add: execute_query_def after_attempts_def leading_faults_def split: option.splits)
qed


section \<open>Fetching the stored document\<close>

lemma get_data_parse:
  "parse_statement (tokens (fst (get_data_request user_id))) =
     Some (Select ''persistence_data'' ''users'' ''user_id'' ''$user_id'')"
  by code_simp

lemma get_data_params: "snd (get_data_request user_id) = [(''$user_id'', VInt user_id)]"
  by (simp add: get_data_request_def)

lemma get_data_answer:
  "answer (fst (get_data_request user_id)) (snd (get_data_request user_id)) rows =
     Some (rows, user_cells rows user_id)"
  by (simp add: answer_def get_data_parse get_data_params user_cells_def
      users_table_def data_column_def user_id_column_def)

lemma get_data_result:
  assumes "leading_faults y \<le> max_retries"
  shows "get_data user_id y =
     ((case user_cells (y_rows y) user_id of
         [] \<Rightarrow> Inr empty_doc
       | [c] \<Rightarrow> (case c of
                   None \<Rightarrow> Inr empty_doc
                 | Some (VJson d) \<Rightarrow> Inr d
                 | Some _ \<Rightarrow> Inl JSONDecodeError)
       | _ \<Rightarrow> Inl (LookupError user_id)),
      (after_attempts (fst (get_data_request user_id)) (snd (get_data_request user_id)) y)
        \<lparr>y_issued := y_issued y @ [get_data_request user_id]\<rparr>)"
proof -
  have "(after_attempts (fst (get_data_request user_id)) (snd (get_data_request user_id)) y)
          \<lparr>y_issued := y_issued y @ [get_data_request user_id], y_rows := y_rows y\<rparr>
      = (after_attempts (fst (get_data_request user_id)) (snd (get_data_request user_id)) y)
          \<lparr>y_issued := y_issued y @ [get_data_request user_id]\<rparr>"
    by (simp add: after_attempts_def)
  then show ?thesis
    unfolding get_data_def execute_query_answer[OF assms] get_data_answer
    by (simp split: list.splits option.splits cell.splits)
qed

lemma get_data_issued:
  "y_issued (snd (get_data user_id y)) = y_issued y @ [get_data_request user_id]"
  using execute_query_issued[of "fst (get_data_request user_id)" "snd (get_data_request user_id)" y]
  by (auto simp: get_data_def split: prod.splits sum.splits option.splits cell.splits)

lemma update_database_issued:
  "y_issued (snd (update_database p user_id err y)) =
     y_issued y @ [update_database_request p user_id err]"
  using execute_query_issued[of "fst (update_database_request p user_id err)"
      "snd (update_database_request p user_id err)" y]
  by (auto simp: update_database_def split: prod.splits sum.splits)

text \<open>
  C7. When the store answers within the retries of the executor, \<open>get_data\<close> returns
  the empty document when no row matches the user id and when the one matching row has a
  \<open>NULL\<close> document cell, and the parsed document when the one matching row holds a
  JSON blob. When more than one row matches it fails with \<open>LookupError\<close>: an error the
  executor does not retry, raised after \<open>execute_query\<close> has returned, the statement
  having been executed once beyond the failed attempts.
\<close>

theorem get_data_cases:
  assumes "leading_faults y \<le> max_retries"
  shows "(user_cells (y_rows y) user_id = [] \<longrightarrow> fst (get_data user_id y) = Inr empty_doc)
       \<and> (user_cells (y_rows y) user_id = [None] \<longrightarrow> fst (get_data user_id y) = Inr empty_doc)
       \<and> (\<forall>d. user_cells (y_rows y) user_id = [Some (VJson d)] \<longrightarrow> fst (get_data user_id y) = Inr d)
       \<and> (1 < length (user_cells (y_rows y) user_id) \<longrightarrow>
            fst (get_data user_id y) = Inl (LookupError user_id)
            \<and> \<not> retriable (LookupError user_id)
            \<and> y_executed (snd (get_data user_id y)) =
                y_executed y @ replicate (leading_faults y + 1) (get_data_request user_id))"
  unfolding get_data_result[OF assms]
  by (auto simp: retriable_def after_attempts_def split: list.splits)


theorem get_data_cases_witness:
  "leading_faults (demo_store []) \<le> max_retries
   \<and> fst (get_data 7 (demo_store [])) = Inr empty_doc
   \<and> fst (get_data 7 (demo_store [[user_id_column \<mapsto> VInt 7]])) = Inr empty_doc
   \<and> fst (get_data 7 (demo_store [[user_id_column \<mapsto> VInt 7, data_column \<mapsto> VJson demo_doc]]))
       = Inr demo_doc
   \<and> fst (get_data 7 (demo_store [[user_id_column \<mapsto> VInt 7, data_column \<mapsto> VJson demo_doc],
                                   [user_id_column \<mapsto> VInt 7]]))
       = Inl (LookupError 7)
   \<and> y_executed (snd (get_data 7 (demo_store [[user_id_column \<mapsto> VInt 7, data_column \<mapsto> VJson demo_doc],
                                   [user_id_column \<mapsto> VInt 7]])))
       = [get_data_request 7]"
  using get_data_cases[of "demo_store []" 7]
    get_data_cases[of "demo_store [[user_id_column \<mapsto> VInt 7]]" 7]
    get_data_cases[of "demo_store [[user_id_column \<mapsto> VInt 7, data_column \<mapsto> VJson demo_doc]]" 7]
    get_data_cases[of "demo_store [[user_id_column \<mapsto> VInt 7, data_column \<mapsto> VJson demo_doc],
                                   [user_id_column \<mapsto> VInt 7]]" 7]
  by (simp add: demo_store_def leading_faults_def max_retries_def user_cells_def
      user_id_column_def data_column_def)

section \<open>Adding a user\<close>

lemma upsert_parse_00:
  "parse_statement (tokens (fst (upsert_new_user_request
      \<lparr>u_id = i, u_first_name = f, u_last_name = None, u_username = None\<rparr>))) =
   Some (Upsert ''users'' [''user_id'', ''first_name''] [''$user_id'', ''$first_name''])"
  by code_simp

lemma upsert_parse_10:
  "parse_statement (tokens (fst (upsert_new_user_request
      \<lparr>u_id = i, u_first_name = f, u_last_name = Some l, u_username = None\<rparr>))) =
   Some (Upsert ''users'' [''user_id'', ''first_name'', ''last_name'']
           [''$user_id'', ''$first_name'', ''$last_name''])"
  by code_simp

lemma upsert_parse_01:
  "parse_statement (tokens (fst (upsert_new_user_request
      \<lparr>u_id = i, u_first_name = f, u_last_name = None, u_username = Some n\<rparr>))) =
   Some (Upsert ''users'' [''user_id'', ''first_name'', ''username'']
           [''$user_id'', ''$first_name'', ''$username''])"
  by code_simp

lemma upsert_parse_11:
  "parse_statement (tokens (fst (upsert_new_user_request
      \<lparr>u_id = i, u_first_name = f, u_last_name = Some l, u_username = Some n\<rparr>))) =
   Some (Upsert ''users'' [''user_id'', ''first_name'', ''last_name'', ''username'']
           [''$user_id'', ''$first_name'', ''$last_name'', ''$username''])"
  by code_simp

lemma upsert_params:
  "snd (upsert_new_user_request u) =
     [(''$user_id'', VInt (u_id u)), (''$first_name'', VUtf8 (u_first_name u))]
     @ (case u_last_name u of None \<Rightarrow> [] | Some l \<Rightarrow> [(''$last_name'', VUtf8 l)])
     @ (case u_username u of None \<Rightarrow> [] | Some n \<Rightarrow> [(''$username'', VUtf8 n)])"
  by (simp add: upsert_new_user_request_def split: option.splits)

lemma upsert_answer:
  "answer (fst (upsert_new_user_request u)) (snd (upsert_new_user_request u)) rows =
     Some (upserted u rows, [])"
proof -
  obtain i f l n where u: "u = \<lparr>u_id = i, u_first_name = f, u_last_name = l, u_username = n\<rparr>"
    by (cases u) auto
  have cols: "user_id_column = ''user_id''" "first_name_column = ''first_name''"
    "last_name_column = ''last_name''" "username_column = ''username''" "users_table = ''users''"
    by (simp_all add: user_id_column_def first_name_column_def last_name_column_def
        username_column_def users_table_def)
  show ?thesis
  proof (cases l)
    case None
    note l = this
    show ?thesis
    proof (cases n)
      case None
      have a: "\<And>r. assign (snd (upsert_new_user_request u))
                 (zip [''user_id'', ''first_name''] (map EParam [''$user_id'', ''$first_name''])) r
               = r ++ identity_row u"
        by (rule ext) (simp add: assign_def eval_expr_def upsert_params u l None identity_row_def
            cols map_add_def)
      show ?thesis
        unfolding answer_def using a
        by (simp add: u l None upsert_parse_00 upserted_def cols upsert_params Let_def)
    next
      case (Some n')
      have a: "\<And>r. assign (snd (upsert_new_user_request u))
                 (zip [''user_id'', ''first_name'', ''username'']
                      (map EParam [''$user_id'', ''$first_name'', ''$username''])) r
               = r ++ identity_row u"
        by (rule ext) (simp add: assign_def eval_expr_def upsert_params u l Some identity_row_def
            cols map_add_def)
      show ?thesis
        unfolding answer_def using a
        by (simp add: u l Some upsert_parse_01 upserted_def cols upsert_params Let_def)
    qed
  next
    case (Some l')
    note l = this
    show ?thesis
    proof (cases n)
      case None
      have a: "\<And>r. assign (snd (upsert_new_user_request u))
                 (zip [''user_id'', ''first_name'', ''last_name'']
                      (map EParam [''$user_id'', ''$first_name'', ''$last_name''])) r
               = r ++ identity_row u"
        by (rule ext) (simp add: assign_def eval_expr_def upsert_params u l None identity_row_def
            cols map_add_def)
      show ?thesis
        unfolding answer_def using a
        by (simp add: u l None upsert_parse_10 upserted_def cols upsert_params Let_def)
    next
      case (Some n')
      have a: "\<And>r. assign (snd (upsert_new_user_request u))
                 (zip [''user_id'', ''first_name'', ''last_name'', ''username'']
                      (map EParam [''$user_id'', ''$first_name'', ''$last_name'', ''$username''])) r
               = r ++ identity_row u"
        by (rule ext) (simp add: assign_def eval_expr_def upsert_params u l Some identity_row_def
            cols map_add_def)
      show ?thesis
        unfolding answer_def using a
        by (simp add: u l Some upsert_parse_11 upserted_def cols upsert_params Let_def)
    qed
  qed
qed

lemma upsert_new_user_result:
  assumes "leading_faults y \<le> max_retries"
  shows "fst (upsert_new_user u y) = Inr ()"
    and "y_rows (snd (upsert_new_user u y)) = upserted u (y_rows y)"
  unfolding upsert_new_user_def execute_query_answer[OF assms] upsert_answer
  by simp_all

lemma identity_row_other:
  "c \<notin> set (identity_columns u) \<Longrightarrow> identity_row u c = None"
  by (cases "u_last_name u"; cases "u_username u")
     (auto simp: identity_columns_def identity_row_def)

text \<open>
  C10. When the store answers and the user already has a row, \<open>upsert_new_user\<close>
  succeeds, keeps the number of rows, and leaves every column outside the identity
  columns it names (\<open>user_id\<close>, \<open>first_name\<close>, and \<open>last_name\<close>, \<open>username\<close> when
  the event has them) as it was in every row; \<open>usage\<close>, \<open>persistence_data\<close> and
  \<open>meetings_ts\<close> are never among the named columns.
\<close>

theorem upsert_new_user_frame:
  assumes "leading_faults y \<le> max_retries"
    and "list_ex (\<lambda>r. r user_id_column = Some (VInt (u_id u))) (y_rows y)"
  shows "fst (upsert_new_user u y) = Inr ()
       \<and> length (y_rows (snd (upsert_new_user u y))) = length (y_rows y)
       \<and> (\<forall>i < length (y_rows y). \<forall>c. c \<notin> set (identity_columns u) \<longrightarrow>
             (y_rows (snd (upsert_new_user u y)) ! i) c = (y_rows y ! i) c)
       \<and> usage_column \<notin> set (identity_columns u)
       \<and> data_column \<notin> set (identity_columns u)
       \<and> meetings_ts_column \<notin> set (identity_columns u)"
proof -
  have other: "usage_column \<notin> set (identity_columns u)"
    "data_column \<notin> set (identity_columns u)"
    "meetings_ts_column \<notin> set (identity_columns u)"
    by (auto simp: identity_columns_def usage_column_def data_column_def meetings_ts_column_def
        user_id_column_def first_name_column_def last_name_column_def username_column_def
        split: option.splits)
  have rows: "y_rows (snd (upsert_new_user u y)) =
      map (\<lambda>r. if r user_id_column = Some (VInt (u_id u)) then r ++ identity_row u else r) (y_rows y)"
    using upsert_new_user_result(2)[OF assms(1), of u] assms(2) by (simp add: upserted_def)
  show ?thesis
    using other upsert_new_user_result(1)[OF assms(1), of u]
    by (simp add: rows map_add_def identity_row_other)
qed


theorem upsert_new_user_frame_witness:
  "leading_faults (demo_store [demo_row]) \<le> max_retries
   \<and> list_ex (\<lambda>r. r user_id_column = Some (VInt (u_id demo_user))) (y_rows (demo_store [demo_row]))
   \<and> fst (upsert_new_user demo_user (demo_store [demo_row])) = Inr ()
   \<and> (y_rows (snd (upsert_new_user demo_user (demo_store [demo_row]))) ! 0) usage_column = Some (VInt 3)
   \<and> (y_rows (snd (upsert_new_user demo_user (demo_store [demo_row]))) ! 0) data_column
       = Some (VJson demo_doc)
   \<and> (y_rows (snd (upsert_new_user demo_user (demo_store [demo_row]))) ! 0) meetings_ts_column
       = Some (VUtf8 ''2022-07-01'')"
  using upsert_new_user_frame[of "demo_store [demo_row]" demo_user]
  by (simp add: demo_store_def leading_faults_def max_retries_def demo_user_def demo_row_def
      user_id_column_def first_name_column_def last_name_column_def usage_column_def
      data_column_def meetings_ts_column_def)

section \<open>Query texts\<close>

text \<open>
  C8. The text of the read statement is the same for every user id; the text of the
  write statement is the same for every user id and every persistence content (it
  depends on the error flag only). The user id and the dumped document appear in the
  parameters \<open>$user_id\<close> and \<open>$data\<close> alone, and \<open>get_data\<close> and
  \<open>update_database\<close> issue exactly the request so built.
\<close>

theorem query_text_constant:
  "fst (get_data_request user_id) = fst (get_data_request user_id')
   \<and> snd (get_data_request user_id) = [(''$user_id'', VInt user_id)]
   \<and> fst (update_database_request p user_id err) = fst (update_database_request p' user_id' err)
   \<and> snd (update_database_request p user_id True) = [(''$user_id'', VInt user_id)]
   \<and> snd (update_database_request p user_id False) =
        [(''$user_id'', VInt user_id), (''$data'', VJson (dump_into_json p user_id))]
   \<and> y_issued (snd (get_data user_id y)) = y_issued y @ [get_data_request user_id]
   \<and> y_issued (snd (update_database p user_id err y)) =
        y_issued y @ [update_database_request p user_id err]"
proof -
  have g: "y_issued (snd (get_data user_id y)) = y_issued y @ [get_data_request user_id]"
    by (rule get_data_issued)
  have w: "y_issued (snd (update_database p user_id err y)) =
        y_issued y @ [update_database_request p user_id err]"
    by (rule update_database_issued)
  have r1: "fst (get_data_request user_id) = fst (get_data_request user_id')"
    by (simp add: get_data_request_def)
  have r2: "snd (get_data_request user_id) = [(''$user_id'', VInt user_id)]"
    by (simp add: get_data_request_def)
  have r3: "fst (update_database_request p user_id err) = fst (update_database_request p' user_id' err)"
    by (simp add: update_database_request_def Let_def)
  have r4: "snd (update_database_request p user_id True) = [(''$user_id'', VInt user_id)]"
    by (simp add: update_database_request_def Let_def)
  have r5: "snd (update_database_request p user_id False) =
        [(''$user_id'', VInt user_id), (''$data'', VJson (dump_into_json p user_id))]"
    by (simp add: update_database_request_def Let_def)
  show ?thesis
    using r1 r2 r3 r4 r5 g w by blast
qed

theorem query_text_constant_witness:
  "fst (get_data_request 1) = fst (get_data_request 2)
   \<and> fst (update_database_request fresh_persistence 1 False)
       = fst (update_database_request
               \<lparr>p_user_data = Some [2 \<mapsto> [''k'' \<mapsto> JStr ''x'']], p_conversations = None\<rparr> 2 False)"
  using query_text_constant[where user_id = 1 and user_id' = 2 and p = fresh_persistence
      and err = False
      and p' = "\<lparr>p_user_data = Some [2 \<mapsto> [''k'' \<mapsto> JStr ''x'']], p_conversations = None\<rparr>"]
  by simp

section \<open>Registration of conversation handlers\<close>

lemma lib_add_handler_persistence:
  "e_persistence d \<noteq> None \<Longrightarrow>
   \<exists>d'. lib_add_handler d h g = Inr d' \<and> e_persistence d' \<noteq> None"
  by (cases h) (auto simp: lib_add_handler_def get_conversations_def Let_def)

lemma add_handler_cases:
  assumes "e_persistence d \<noteq> None"
  shows "(\<exists>msg. add_handler d h g = Inl (ValueError msg))
       \<or> (\<exists>d'. add_handler d h g = Inr d' \<and> e_persistence d' \<noteq> None)"
proof -
  obtain d' where l: "lib_add_handler d h g = Inr d'" "e_persistence d' \<noteq> None"
    using lib_add_handler_persistence[OF assms] by blast
  show ?thesis using l by (cases h) (auto simp: add_handler_def)
qed

lemma add_handler_bad_settings:
  assumes "e_persistence d \<noteq> None"
    and "ch_per_chat c \<or> ch_per_message c \<or> \<not> ch_persistent c \<or> \<not> ch_per_user c"
  shows "\<exists>msg. add_handler d (Conversation c) g = Inl (ValueError msg)"
proof -
  obtain d' where l: "lib_add_handler d (Conversation c) g = Inr d'" "e_persistence d' \<noteq> None"
    using lib_add_handler_persistence[OF assms(1)] by blast
  show ?thesis using l assms(2) by (auto simp: add_handler_def)
qed

lemma add_all_rejects:
  assumes "e_persistence d \<noteq> None" "Conversation c \<in> set hs"
    and "ch_per_chat c \<or> ch_per_message c \<or> \<not> ch_persistent c \<or> \<not> ch_per_user c"
  shows "\<exists>msg. add_all hs g d = Inl (ValueError msg)"
  using assms(1,2)
proof (induction hs arbitrary: d)
  case Nil
  then show ?case by simp
next
  case (Cons h hs)
  show ?case
  proof (cases "h = Conversation c")
    case True
    then show ?thesis using add_handler_bad_settings[OF Cons.prems(1) assms(3), of g] by auto
  next
    case False
    then have mem: "Conversation c \<in> set hs" using Cons.prems(2) by simp
    from add_handler_cases[OF Cons.prems(1), of h g] show ?thesis
    proof
      assume "\<exists>msg. add_handler d h g = Inl (ValueError msg)"
      then show ?thesis by auto
    next
      assume "\<exists>d'. add_handler d h g = Inr d' \<and> e_persistence d' \<noteq> None"
      then obtain d' where d': "add_handler d h g = Inr d'" "e_persistence d' \<noteq> None" by blast
      show ?thesis using Cons.IH[OF d'(2) mem] d'(1) by simp
    qed
  qed
qed

lemma add_handlers_rejects:
  assumes "Conversation c \<in> set hs"
    and "ch_per_chat c \<or> ch_per_message c \<or> \<not> ch_persistent c \<or> \<not> ch_per_user c"
  shows "\<exists>msg. add_handlers hs usage (new_dispatcher y) = Inl (ValueError msg)"
proof -
  have p: "e_persistence (new_dispatcher y) \<noteq> None" by (simp add: new_dispatcher_def)
  have m: "Conversation c \<in> set (hs @ [catch_all])" using assms(1) by simp
  obtain msg where "add_all (hs @ [catch_all]) 0 (new_dispatcher y) = Inl (ValueError msg)"
    using add_all_rejects[OF p m assms(2)] by blast
  then show ?thesis by (simp add: add_handlers_def)
qed

text \<open>
  C9. On a dispatcher with persistence, \<open>add_handler\<close> of a conversation handler with
  \<open>per_chat\<close> or \<open>per_message\<close> set, or with \<open>persistent\<close> or \<open>per_user\<close> unset, fails
  with \<open>ValueError\<close>. (\<open>add_handlers_rejects\<close>: the registration of \<open>index.py\<close> then
  fails as a whole, so no dispatcher exists to process an event.)
\<close>

theorem add_handler_rejects:
  assumes "e_persistence d \<noteq> None"
    and "ch_per_chat c \<or> ch_per_message c \<or> \<not> ch_persistent c \<or> \<not> ch_per_user c"
  shows "\<exists>msg. add_handler d (Conversation c) g = Inl (ValueError msg)"
  using assms by (rule add_handler_bad_settings)

theorem add_handler_rejects_witness:
  "e_persistence (new_dispatcher (demo_store [])) \<noteq> None
   \<and> ch_per_chat demo_conv
   \<and> add_handler (new_dispatcher (demo_store [])) (Conversation demo_conv) 0
       = Inl (ValueError ''YDBPersistence requires per_chat=False for ConversationHandler'')"
  using add_handler_rejects[of "new_dispatcher (demo_store [])" demo_conv 0]
  by (simp add: new_dispatcher_def demo_conv_def add_handler_def lib_add_handler_def
      get_conversations_def fresh_persistence_def conv_lookup_def)

section \<open>The dumped document\<close>




section \<open>What the dispatch and the save leave alone\<close>


























section \<open>The statements of one invocation\<close>










section \<open>The override flags are not persisted\<close>



lemma user_map_alt: "user_map d = Option.bind (e_persistence d) p_user_data"
  by (simp add: user_map_def split: option.splits)









lemma update_user_data_eq:
  "update_user_data p uid data =
     p\<lparr>p_user_data := Some ((case p_user_data p of None \<Rightarrow> Map.empty | Some m \<Rightarrow> m)(uid \<mapsto> data))\<rparr>"
  by (auto simp: update_user_data_def Let_def map_upd_triv split: option.splits)



























section \<open>An unknown event ends the conversations\<close>

















lemma convs_of_normalised [simp]: "convs_of (p\<lparr>p_conversations := Some (convs_of p)\<rparr>) = convs_of p"
  by (simp add: convs_of_def)




lemma synced_convs_of:
  "convs_of p' = convs_of p \<Longrightarrow> synced (Some p') h = synced (Some p) h"
  by (cases h) (simp_all add: synced_def state_of_def)




lemma run_callback_groups: "e_groups (fst (run_callback cb upd uid d)) = e_groups d"
  by (simp add: run_callback_def Let_def)

lemma dispatch_error_groups: "e_groups (dispatch_error d uid) = e_groups d"
proof -
  have "\<And>ehs. e_groups (fold (\<lambda>eh d'. d'\<lparr>e_user_data := (e_user_data d')(uid \<mapsto>
                          eh (case e_user_data d' uid of None \<Rightarrow> Map.empty | Some s \<Rightarrow> s))\<rparr>) ehs d)
        = e_groups d"
    subgoal for ehs by (induction ehs arbitrary: d) simp_all
    done
  then show ?thesis by (simp add: dispatch_error_def)
qed










section \<open>Runs of the concrete engine\<close>

text \<open>
  The concrete engine has the groups and the error handler that \<open>add_handlers\<close> registers
  on the dispatcher of \<open>index.py\<close>.
\<close>

lemma demo_engine_registered:
  "case add_handlers [Conversation demo_meetings] usage (new_dispatcher (demo_store rows)) of
     Inl e \<Rightarrow> False
   | Inr d \<Rightarrow> e_groups d = e_groups (demo_engine usage rows)
              \<and> e_error_handlers d = e_error_handlers (demo_engine usage rows)
              \<and> e_user_data d = e_user_data (demo_engine usage rows)
              \<and> e_ydb d = e_ydb (demo_engine usage rows)
              \<and> e_persistence d = Some (fresh_persistence\<lparr>p_conversations := Some []\<rparr>)"
  by (simp add: add_handlers_def add_handler_def lib_add_handler_def get_conversations_def
      new_dispatcher_def demo_engine_def demo_meetings_def catch_all_def fresh_persistence_def
      conv_lookup_def Let_def)

lemma demo_faults: "leading_faults (demo_store rows) \<le> max_retries"
  by (simp add: leading_faults_def demo_store_def)

lemma demo_get_data:
  "get_data 7 (demo_store [demo_row]) =
     (Inr demo_doc, (demo_store [demo_row])\<lparr>y_issued := [get_data_request 7],
         y_executed := [get_data_request 7]\<rparr>)"
  unfolding get_data_result[OF demo_faults]
  by (simp add: user_cells_def demo_row_def demo_store_def after_attempts_def leading_faults_def
      user_id_column_def data_column_def first_name_column_def last_name_column_def
      usage_column_def meetings_ts_column_def)

lemmas demo_defs = demo_engine_def demo_update_def demo_user_def demo_meetings_def demo_select_def
  demo_doc_def catch_all_def fresh_persistence_def demo_store_def

lemmas engine_defs = load_persistence_data_def update_data_def update_user_data_eq
  update_conversation_def setdefault_def conv_lookup_def py_get_def get_user_data_def
  get_conversations_def dispatcher_process_update_def check_update_def handle_update_def
  run_callback_def dispatch_error_def on_error_def on_unknown_def on_every_def
  update_persistence_def pop_flag_def flag_set_def conv_update_state_def persist_state_def
  post_channel_keys_def END_def Let_def dispatched_def

lemmas demo_simps = demo_defs engine_defs demo_get_data[unfolded demo_doc_def demo_store_def]
  usage_ok_def usage_down_def


lemma demo_boom_flag:
  "flag_set (dispatched (demo_engine usage_ok [demo_row]) (demo_update ''boom'') 7) 7 ''ERROR''"
  by (simp add: demo_simps)












end
